theory Spec2Isabelle
  imports Main "HOL-Library.Word"
begin

section \<open>JavaScript strings\<close>

text \<open>
  A JavaScript string is a sequence of 16-bit code units. String literals of the
  source are written with \<open>js\<close>, which maps each character of an ASCII literal to
  its code unit.
\<close>

type_synonym jschar = "16 word"
type_synonym jsstring = "jschar list"

definition js :: "string \<Rightarrow> jsstring" where
  "js s = map (\<lambda>c. word_of_nat (of_char c)) s"

definition slash :: jschar where
  "slash = 0x2F"

definition comma :: jschar where
  "comma = 0x2C"

text \<open>
  The code units that \<open>String.prototype.trim\<close> removes: the WhiteSpace and
  LineTerminator productions of ECMAScript (TAB, LF, VT, FF, CR, SP, NBSP, the Unicode
  space separators, LS, PS and the byte order mark).
\<close>

definition isWhiteSpace :: "jschar \<Rightarrow> bool" where
  "isWhiteSpace c \<longleftrightarrow>
     c = 0x9 \<or> c = 0xA \<or> c = 0xB \<or> c = 0xC \<or> c = 0xD \<or> c = 0x20 \<or> c = 0xA0 \<or>
     c = 0x1680 \<or> (0x2000 \<le> c \<and> c \<le> 0x200A) \<or> c = 0x2028 \<or> c = 0x2029 \<or>
     c = 0x202F \<or> c = 0x205F \<or> c = 0x3000 \<or> c = 0xFEFF"

text \<open>\<open>s.trim()\<close>: white space is dropped at both ends.\<close>

definition trim :: "jsstring \<Rightarrow> jsstring" where
  "trim s = rev (dropWhile isWhiteSpace (rev (dropWhile isWhiteSpace s)))"

text \<open>
  \<open>s.replace(/\/$/, "")\<close>: the pattern has no \<open>m\<close> flag, so \<open>$\<close> matches at the end
  of the input only, and the one slash standing there, if any, is removed.
\<close>

definition stripTrailingSlash :: "jsstring \<Rightarrow> jsstring" where
  "stripTrailingSlash s = (if s \<noteq> [] \<and> last s = slash then butlast s else s)"

section \<open>backend/index.js: the origin gate\<close>

text \<open>
  \<open>sanitizeOrigin\<close> receives either a string or \<open>undefined\<close> (a request without an
  Origin header); \<open>None\<close> stands for the value that is not a string.
\<close>

definition sanitizeOrigin :: "jsstring option \<Rightarrow> jsstring" where
  "sanitizeOrigin origin =
     (case origin of
        None \<Rightarrow> []
      | Some s \<Rightarrow> stripTrailingSlash (trim s))"

definition DEFAULT_ALLOWED_ORIGINS :: "jsstring list" where
  "DEFAULT_ALLOWED_ORIGINS =
     [js ''http://localhost:5173'',
      js ''http://127.0.0.1:5173'',
      js ''http://localhost:4173'',
      js ''http://127.0.0.1:4173'']"

text \<open>
  \<open>s.split(",")\<close>: the pieces between the commas, in order; a string without a comma
  (the empty string too) gives one piece.
\<close>

fun split_comma :: "jsstring \<Rightarrow> jsstring list" where
  "split_comma [] = [[]]"
| "split_comma (c # cs) =
     (if c = comma then [] # split_comma cs
      else (case split_comma cs of
              [] \<Rightarrow> [[c]]
            | piece # pieces \<Rightarrow> (c # piece) # pieces))"

text \<open>
  \<open>process.env.FRONTEND_URL\<close> is a string or \<open>undefined\<close> (\<open>None\<close>);
  \<open>value || ""\<close> replaces \<open>undefined\<close> by the empty string.
\<close>

definition configuredOrigins :: "jsstring option \<Rightarrow> jsstring list" where
  "configuredOrigins FRONTEND_URL =
     filter (\<lambda>origin. 0 < length origin)
       (map (\<lambda>entry. sanitizeOrigin (Some entry))
          (split_comma (case FRONTEND_URL of None \<Rightarrow> [] | Some s \<Rightarrow> s)))"

definition defaultOrigins :: "jsstring list" where
  "defaultOrigins = map (\<lambda>entry. sanitizeOrigin (Some entry)) DEFAULT_ALLOWED_ORIGINS"

definition allowedOrigins :: "jsstring option \<Rightarrow> jsstring set" where
  "allowedOrigins FRONTEND_URL = set (defaultOrigins @ configuredOrigins FRONTEND_URL)"

definition allowAllOrigins :: "jsstring option \<Rightarrow> bool" where
  "allowAllOrigins FRONTEND_URL \<longleftrightarrow> length (configuredOrigins FRONTEND_URL) = 0"

text \<open>Every value thrown on the paths modelled here is an \<open>Error\<close> object; its message is kept.\<close>

datatype error = Error (message: jsstring)

text \<open>
  The two ways the origin function answers: \<open>callback(null, true)\<close> and
  \<open>callback(new Error(...))\<close>.
\<close>

datatype callback_result = CallbackOk | CallbackErr error

text \<open>
  The origin function handed to \<open>cors\<close>. Its argument is the request's Origin header,
  \<open>None\<close> when the request has none; \<open>!origin\<close> holds for \<open>undefined\<close> and for the
  empty string.
\<close>

definition corsOrigin :: "jsstring option \<Rightarrow> jsstring option \<Rightarrow> callback_result" where
  "corsOrigin FRONTEND_URL origin =
     (let normalizedOrigin = sanitizeOrigin origin
      in if (origin = None \<or> origin = Some []) \<or> allowAllOrigins FRONTEND_URL
            \<or> normalizedOrigin \<in> allowedOrigins FRONTEND_URL
         then CallbackOk
         else CallbackErr (Error (js ''Not allowed by CORS'')))"

text \<open>
  The application is a chain of middleware in the order of the \<open>app.use\<close> calls. A
  middleware passes the request on (\<open>next()\<close>), fails it (\<open>next(err)\<close>), which skips
  every later middleware, or answers it.
\<close>

record incoming =
  originHeader :: "jsstring option"

datatype ('q, 'r) middleware_result = Next 'q | NextErr error | Respond 'r

fun runMiddleware ::
  "('q \<Rightarrow> ('q, 'r) middleware_result) list \<Rightarrow> 'q \<Rightarrow> error + 'r option" where
  "runMiddleware [] req = Inr None"
| "runMiddleware (m # ms) req =
     (case m req of
        Next req' \<Rightarrow> runMiddleware ms req'
      | NextErr err \<Rightarrow> Inl err
      | Respond res \<Rightarrow> Inr (Some res))"

text \<open>
  The \<open>cors\<close> middleware asks the origin function; on an error it calls \<open>next(err)\<close>,
  otherwise the library goes on with the admitted request (\<open>admitted\<close>: it sets the
  headers and passes the request on, or answers a preflight itself).
\<close>

definition corsMiddleware ::
  "jsstring option \<Rightarrow> ('a incoming_scheme \<Rightarrow> ('a incoming_scheme, 'r) middleware_result)
     \<Rightarrow> 'a incoming_scheme \<Rightarrow> ('a incoming_scheme, 'r) middleware_result" where
  "corsMiddleware FRONTEND_URL admitted req =
     (case corsOrigin FRONTEND_URL (originHeader req) of
        CallbackErr err \<Rightarrow> NextErr err
      | CallbackOk \<Rightarrow> admitted req)"

text \<open>\<open>app\<close>: the \<open>cors\<close> middleware, then \<open>express.json()\<close>, then \<open>routes\<close>.\<close>

definition app ::
  "jsstring option \<Rightarrow> ('a incoming_scheme \<Rightarrow> ('a incoming_scheme, 'r) middleware_result)
     \<Rightarrow> ('a incoming_scheme \<Rightarrow> ('a incoming_scheme, 'r) middleware_result)
     \<Rightarrow> ('a incoming_scheme \<Rightarrow> ('a incoming_scheme, 'r) middleware_result)
     \<Rightarrow> 'a incoming_scheme \<Rightarrow> error + 'r option" where
  "app FRONTEND_URL admitted express_json routes req =
     runMiddleware [corsMiddleware FRONTEND_URL admitted, express_json, routes] req"

section \<open>JavaScript values\<close>

text \<open>
  The values the client code handles: what \<open>JSON.parse\<close> builds from a response body,
  and \<open>undefined\<close> for a missing property. A number is kept as the decimal text that
  \<open>String\<close> gives for it, which is all this program can observe of a number; an object
  is the list of its own properties.
\<close>

datatype jsval =
    JUndefined
  | JNull
  | JBool bool
  | JNum jsstring
  | JStr jsstring
  | JArr "jsval list"
  | JObj "(jsstring \<times> jsval) list"

text \<open>
  The messages of the two \<open>TypeError\<close>s that can arise differ between engines, so they
  are parameters: reading a property of \<open>null\<close> or \<open>undefined\<close>, and converting to a
  string an object that has no usable \<open>toString\<close>.
\<close>

record engine =
  propertyTypeError :: "jsval \<Rightarrow> jsstring \<Rightarrow> jsstring"
  primitiveTypeError :: jsstring

text \<open>ToBoolean: what \<open>!v\<close> and \<open>v || w\<close> test.\<close>

fun truthy :: "jsval \<Rightarrow> bool" where
  "truthy JUndefined = False"
| "truthy JNull = False"
| "truthy (JBool b) = b"
| "truthy (JNum n) = (n \<noteq> js ''0'' \<and> n \<noteq> js ''NaN'')"
| "truthy (JStr s) = (s \<noteq> [])"
| "truthy (JArr xs) = True"
| "truthy (JObj ps) = True"

definition js_or :: "jsval \<Rightarrow> jsval \<Rightarrow> jsval" where
  "js_or a b = (if truthy a then a else b)"

text \<open>
  \<open>v.name\<close>, for the names this program reads (\<open>message\<close>, \<open>token\<close>, \<open>user\<close>), none of
  which a built-in prototype defines: a \<open>TypeError\<close> on \<open>null\<close> and \<open>undefined\<close>, the own
  property of an object, \<open>undefined\<close> otherwise.
\<close>

fun getProp :: "engine \<Rightarrow> jsval \<Rightarrow> jsstring \<Rightarrow> error + jsval" where
  "getProp eng JUndefined name = Inl (Error (propertyTypeError eng JUndefined name))"
| "getProp eng JNull name = Inl (Error (propertyTypeError eng JNull name))"
| "getProp eng (JObj ps) name =
     Inr (case map_of ps name of None \<Rightarrow> JUndefined | Some v \<Rightarrow> v)"
| "getProp eng v name = Inr JUndefined"

text \<open>
  ToString, as applied by a template literal, by \<open>localStorage.setItem\<close> and by
  \<open>new Error\<close>. An array joins its elements with commas, \<open>null\<close> and \<open>undefined\<close>
  elements printing as nothing. A parsed object prints as \<open>[object Object]\<close> through
  \<open>Object.prototype.toString\<close>, unless an own property \<open>toString\<close> (never callable in
  parsed JSON) hides that method: then the conversion throws a \<open>TypeError\<close>.
\<close>

fun toStringJS :: "engine \<Rightarrow> jsval \<Rightarrow> error + jsstring"
  and joinJS :: "engine \<Rightarrow> jsval list \<Rightarrow> error + jsstring" where
  "toStringJS eng JUndefined = Inr (js ''undefined'')"
| "toStringJS eng JNull = Inr (js ''null'')"
| "toStringJS eng (JBool b) = Inr (if b then js ''true'' else js ''false'')"
| "toStringJS eng (JNum n) = Inr n"
| "toStringJS eng (JStr s) = Inr s"
| "toStringJS eng (JArr xs) = joinJS eng xs"
| "toStringJS eng (JObj ps) =
     (if js ''toString'' \<in> fst ` set ps then Inl (Error (primitiveTypeError eng))
      else Inr (js ''[object Object]''))"
| "joinJS eng [] = Inr []"
| "joinJS eng (x # xs) =
     (case (case x of JUndefined \<Rightarrow> Inr [] | JNull \<Rightarrow> Inr [] | _ \<Rightarrow> toStringJS eng x) of
        Inl err \<Rightarrow> Inl err
      | Inr s \<Rightarrow>
          if xs = [] then Inr s
          else (case joinJS eng xs of
                  Inl err \<Rightarrow> Inl err
                | Inr rest \<Rightarrow> Inr (s @ [comma] @ rest)))"

section \<open>frontend/src/contexts/AuthContext.jsx: the backend address\<close>

text \<open>
  What \<open>resolveBackendUrl\<close> reads: \<open>import.meta.env.VITE_BACKEND_URL\<close> (a string or
  \<open>undefined\<close>) and the global \<open>window\<close>, which may be missing, as may its \<open>location\<close>.
\<close>

record location =
  location_origin :: jsstring

record window =
  window_location :: "location option"

record env =
  VITE_BACKEND_URL :: "jsstring option"
  window :: "window option"

definition resolveBackendUrl :: "env \<Rightarrow> jsstring" where
  "resolveBackendUrl e =
     (let otherwise =
            (case window e of
               None \<Rightarrow> js ''http://localhost:3000''
             | Some w \<Rightarrow>
                 (case window_location w of
                    None \<Rightarrow> js ''http://localhost:3000''
                  | Some l \<Rightarrow>
                      if location_origin l \<noteq> [] then location_origin l else js ''http://localhost:3000''))
      in case VITE_BACKEND_URL e of
           None \<Rightarrow> otherwise
         | Some envUrl \<Rightarrow>
             if envUrl \<noteq> [] \<and> 0 < length (trim envUrl)
             then stripTrailingSlash (trim envUrl)
             else otherwise)"

definition BACKEND_URL :: "env \<Rightarrow> jsstring" where
  "BACKEND_URL e = resolveBackendUrl e"

definition startsWith :: "jsstring \<Rightarrow> jsstring \<Rightarrow> bool" where
  "startsWith s prefix \<longleftrightarrow> take (length prefix) s = prefix"

definition buildApiUrl :: "env \<Rightarrow> jsstring \<Rightarrow> jsstring" where
  "buildApiUrl e path =
     (if \<not> startsWith path (js ''/'') then BACKEND_URL e @ js ''/'' @ path
      else BACKEND_URL e @ path)"

section \<open>frontend/src/contexts/AuthContext.jsx: the session\<close>

text \<open>
  A request as handed to \<open>fetch\<close>; the body is the value given to \<open>JSON.stringify\<close>.
  \<open>fetch\<close> rejects (a network failure) or resolves with a response, of which the code
  reads \<open>ok\<close> and the outcome of \<open>json()\<close>, which rejects when the body is not JSON.
\<close>

record request =
  req_url :: jsstring
  req_method :: jsstring
  req_headers :: "(jsstring \<times> jsstring) list"
  req_body :: "jsval option"

record response =
  ok :: bool
  json :: "error + jsval"

datatype fetch_result = Rejected error | Resolved response

text \<open>
  What the provider reads and writes: \<open>localStorage\<close>, the \<open>user\<close> state, the
  destinations given to \<open>navigate\<close> and the requests given to \<open>fetch\<close>, both in order.
  Storage writes are taken to succeed.
\<close>

record world =
  localStorage :: "jsstring \<rightharpoonup> jsstring"
  user :: jsval
  navigated :: "jsstring list"
  fetched :: "request list"

definition getItem :: "jsstring \<Rightarrow> world \<Rightarrow> jsstring option" where
  "getItem key w = localStorage w key"

definition setItem :: "jsstring \<Rightarrow> jsstring \<Rightarrow> world \<Rightarrow> world" where
  "setItem key v w = w\<lparr>localStorage := (localStorage w)(key \<mapsto> v)\<rparr>"

definition removeItem :: "jsstring \<Rightarrow> world \<Rightarrow> world" where
  "removeItem key w = w\<lparr>localStorage := (localStorage w)(key := None)\<rparr>"

definition setUser :: "jsval \<Rightarrow> world \<Rightarrow> world" where
  "setUser v w = w\<lparr>user := v\<rparr>"

definition navigate :: "jsstring \<Rightarrow> world \<Rightarrow> world" where
  "navigate destination w = w\<lparr>navigated := navigated w @ [destination]\<rparr>"

definition fetch :: "request \<Rightarrow> world \<Rightarrow> world" where
  "fetch req w = w\<lparr>fetched := fetched w @ [req]\<rparr>"

definition getStoredToken :: "world \<Rightarrow> jsstring option" where
  "getStoredToken w = getItem (js ''token'') w"

text \<open>
  \<open>fetchCurrentUser\<close> in two parts: the request it builds (the template literal converts
  the token to a string, which can throw), and what it makes of the outcome of \<open>fetch\<close>.
  A thrown error is \<open>Inl\<close>: the promise of the \<open>async\<close> function rejects.
\<close>

definition fetchCurrentUser_request :: "env \<Rightarrow> engine \<Rightarrow> jsval \<Rightarrow> error + request" where
  "fetchCurrentUser_request e eng token =
     (case toStringJS eng token of
        Inl err \<Rightarrow> Inl err
      | Inr t \<Rightarrow>
          Inr \<lparr>req_url = buildApiUrl e (js ''/user/me''),
               req_method = js ''GET'',
               req_headers = [(js ''Authorization'', js ''Bearer '' @ t)],
               req_body = None\<rparr>)"

definition fetchCurrentUser_response :: "engine \<Rightarrow> fetch_result \<Rightarrow> error + jsval" where
  "fetchCurrentUser_response eng res =
     (case res of
        Rejected err \<Rightarrow> Inl err
      | Resolved response \<Rightarrow>
          if \<not> ok response then
            (let errorBody = (case json response of Inl _ \<Rightarrow> JObj [] | Inr b \<Rightarrow> b)
             in case getProp eng errorBody (js ''message'') of
                  Inl err \<Rightarrow> Inl err
                | Inr m \<Rightarrow>
                    (case toStringJS eng (js_or m (JStr (js ''Failed to fetch user''))) of
                       Inl err \<Rightarrow> Inl err
                     | Inr text \<Rightarrow> Inl (Error text)))
          else
            (case json response of
               Inl err \<Rightarrow> Inl err
             | Inr data \<Rightarrow> getProp eng data (js ''user'')))"

text \<open>The server and the network are a parameter: the outcome of \<open>fetch\<close> for each request.\<close>

definition fetchCurrentUser ::
  "env \<Rightarrow> engine \<Rightarrow> (request \<Rightarrow> fetch_result) \<Rightarrow> jsval \<Rightarrow> world \<Rightarrow> (error + jsval) \<times> world" where
  "fetchCurrentUser e eng net token w =
     (case fetchCurrentUser_request e eng token of
        Inl err \<Rightarrow> (Inl err, w)
      | Inr req \<Rightarrow> (fetchCurrentUser_response eng (net req), fetch req w))"

subsection \<open>The effect run at mount\<close>

text \<open>
  The effect reads the token and, when there is one, starts \<open>fetchCurrentUser\<close>; the
  request goes out at once and its outcome arrives later. What stays behind is the closure
  variable \<open>isSubscribed\<close> and the call in flight (\<open>Inl\<close> when the call has already failed).
  The cleanup function may run before the outcome arrives.
\<close>

record effect =
  isSubscribed :: bool
  inflight :: "error + request"

definition useEffect_mount :: "env \<Rightarrow> engine \<Rightarrow> world \<Rightarrow> effect option \<times> world" where
  "useEffect_mount e eng w =
     (case getStoredToken w of
        None \<Rightarrow> (None, setUser JNull w)
      | Some token \<Rightarrow>
          if token = [] then (None, setUser JNull w)
          else
            (case fetchCurrentUser_request e eng (JStr token) of
               Inl err \<Rightarrow> (Some \<lparr>isSubscribed = True, inflight = Inl err\<rparr>, w)
             | Inr req \<Rightarrow> (Some \<lparr>isSubscribed = True, inflight = Inr req\<rparr>, fetch req w)))"

definition useEffect_cleanup :: "effect \<Rightarrow> effect" where
  "useEffect_cleanup eff = eff\<lparr>isSubscribed := False\<rparr>"

text \<open>
  \<open>promise.then(f)\<close> and \<open>promise.catch(g)\<close> on a settled promise: the handler that
  applies runs on the state of that moment, and the new promise settles with its outcome.
\<close>

definition then_promise ::
  "(error + 'a) \<times> world \<Rightarrow> ('a \<Rightarrow> world \<Rightarrow> (error + 'b) \<times> world) \<Rightarrow> (error + 'b) \<times> world" where
  "then_promise p f = (case p of (Inl err, w) \<Rightarrow> (Inl err, w) | (Inr v, w) \<Rightarrow> f v w)"

definition catch_promise ::
  "(error + 'a) \<times> world \<Rightarrow> (error \<Rightarrow> world \<Rightarrow> (error + 'a) \<times> world) \<Rightarrow> (error + 'a) \<times> world" where
  "catch_promise p g = (case p of (Inl err, w) \<Rightarrow> g err w | (Inr v, w) \<Rightarrow> (Inr v, w))"

text \<open>
  The outcome of \<open>fetch\<close> arrives in state \<open>w\<close>: the chain
  \<open>fetchCurrentUser(token).then(...).catch(...)\<close> runs. The result is the final promise
  of the chain (\<open>Inl\<close>: a rejection nobody handles) and the new state.
\<close>

definition useEffect_settle ::
  "engine \<Rightarrow> effect \<Rightarrow> fetch_result \<Rightarrow> world \<Rightarrow> (error + unit) \<times> world" where
  "useEffect_settle eng eff res w =
     catch_promise
       (then_promise
          (case inflight eff of
             Inl err \<Rightarrow> (Inl err, w)
           | Inr req \<Rightarrow> (fetchCurrentUser_response eng res, w))
          (\<lambda>currentUser w. (Inr (), if isSubscribed eff then setUser currentUser w else w)))
       (\<lambda>err w.
          (Inr (), if isSubscribed eff then setUser JNull (removeItem (js ''token'') w) else w))"

text \<open>The effect from mount to the arrival of the outcome, with no cleanup in between.\<close>

definition restore :: "env \<Rightarrow> engine \<Rightarrow> (request \<Rightarrow> fetch_result) \<Rightarrow> world \<Rightarrow> (error + unit) \<times> world" where
  "restore e eng net w =
     (case useEffect_mount e eng w of
        (None, w') \<Rightarrow> (Inr (), w')
      | (Some eff, w') \<Rightarrow>
          (case inflight eff of
             Inl err \<Rightarrow> useEffect_settle eng eff (Rejected err) w'
           | Inr req \<Rightarrow> useEffect_settle eng eff (net req) w'))"

subsection \<open>logout and login\<close>

definition logout :: "world \<Rightarrow> world" where
  "logout w = navigate (js ''/'') (setUser JNull (removeItem (js ''token'') w))"

text \<open>The request \<open>login\<close> hands to \<open>fetch\<close>.\<close>

definition login_request :: "env \<Rightarrow> jsstring \<Rightarrow> jsstring \<Rightarrow> request" where
  "login_request e username password =
     \<lparr>req_url = buildApiUrl e (js ''/login''),
      req_method = js ''POST'',
      req_headers = [(js ''Content-Type'', js ''application/json'')],
      req_body = Some (JObj [(js ''username'', JStr username),
                             (js ''password'', JStr password)])\<rparr>"

text \<open>
  The \<open>try\<close> block of \<open>login\<close>: \<open>Inl\<close> is a thrown error or a rejected \<open>await\<close>,
  \<open>Inr\<close> the value returned.
\<close>

definition login_try ::
  "env \<Rightarrow> engine \<Rightarrow> (request \<Rightarrow> fetch_result) \<Rightarrow> jsstring \<Rightarrow> jsstring \<Rightarrow> world
     \<Rightarrow> (error + jsval) \<times> world" where
  "login_try e eng net username password w =
     (let req = login_request e username password;
          w1 = fetch req w
      in case net req of
           Rejected err \<Rightarrow> (Inl err, w1)
         | Resolved response \<Rightarrow>
             if \<not> ok response then
               (let errorBody = (case json response of Inl _ \<Rightarrow> JObj [] | Inr b \<Rightarrow> b)
                in case getProp eng errorBody (js ''message'') of
                     Inl err \<Rightarrow> (Inl err, w1)
                   | Inr m \<Rightarrow> (Inr (js_or m (JStr (js ''Failed to login''))), w1))
             else
               (case json response of
                  Inl err \<Rightarrow> (Inl err, w1)
                | Inr data \<Rightarrow>
                    (case getProp eng data (js ''token'') of
                       Inl err \<Rightarrow> (Inl err, w1)
                     | Inr token \<Rightarrow>
                         (case toStringJS eng token of
                            Inl err \<Rightarrow> (Inl err, w1)
                          | Inr t \<Rightarrow>
                              (case fetchCurrentUser e eng net token (setItem (js ''token'') t w1) of
                                 (Inl err, w2) \<Rightarrow> (Inl err, w2)
                               | (Inr currentUser, w2) \<Rightarrow>
                                   (Inr (JStr []),
                                    navigate (js ''/profile'') (setUser currentUser w2)))))))"

definition login ::
  "env \<Rightarrow> engine \<Rightarrow> (request \<Rightarrow> fetch_result) \<Rightarrow> jsstring \<Rightarrow> jsstring \<Rightarrow> world
     \<Rightarrow> jsval \<times> world" where
  "login e eng net username password w =
     (case login_try e eng net username password w of
        (Inl err, w') \<Rightarrow> (js_or (JStr (message err)) (JStr (js ''Failed to login'')), w')
      | (Inr v, w') \<Rightarrow> (v, w'))"

section \<open>A concrete client and server\<close>

text \<open>
  One engine, one configuration and one server, on which the model is run: the messages
  are those V8 prints, the backend address is configured with surrounding blanks and a
  trailing slash, and the server knows one valid token.
\<close>

definition v8 :: engine where
  "v8 =
     \<lparr>propertyTypeError =
        (\<lambda>v name. js ''Cannot read properties of ''
           @ (case v of JUndefined \<Rightarrow> js ''undefined'' | _ \<Rightarrow> js ''null'')
           @ js '' (reading '' @ [0x27] @ name @ [0x27] @ js '')''),
      primitiveTypeError = js ''Cannot convert object to primitive value''\<rparr>"

definition exampleEnv :: env where
  "exampleEnv = \<lparr>VITE_BACKEND_URL = Some (js '' http://api.example.com/ ''), window = None\<rparr>"

definition exampleServer :: "request \<Rightarrow> fetch_result" where
  "exampleServer req =
     (if req_url req = js ''http://api.example.com/login'' then
        (if req_body req = Some (JObj [(js ''username'', JStr (js ''alice'')),
                                       (js ''password'', JStr (js ''rabbit''))])
         then Resolved \<lparr>ok = True, json = Inr (JObj [(js ''token'', JStr (js ''abc123''))])\<rparr>
         else if req_body req = Some (JObj [(js ''username'', JStr (js ''bob'')),
                                            (js ''password'', JStr (js ''builder''))])
         then Resolved \<lparr>ok = True, json = Inr (JObj [(js ''token'', JStr (js ''revoked''))])\<rparr>
         else Resolved \<lparr>ok = False, json = Inr (JObj [(js ''message'', JStr (js ''bad creds''))])\<rparr>)
      else if req_url req = js ''http://api.example.com/user/me'' then
        (if req_headers req = [(js ''Authorization'', js ''Bearer abc123'')]
         then Resolved \<lparr>ok = True,
                        json = Inr (JObj [(js ''user'', JObj [(js ''utorid'', JStr (js ''alice''))])])\<rparr>
         else Resolved \<lparr>ok = False, json = Inr (JObj [(js ''message'', JStr (js ''Unauthorized''))])\<rparr>)
      else Rejected (Error (js ''Failed to fetch'')))"

text \<open>A server that answers every request with status 401 and the body \<open>{"message": ""}\<close>.\<close>

definition silentServer :: "request \<Rightarrow> fetch_result" where
  "silentServer req = Resolved \<lparr>ok = False, json = Inr (JObj [(js ''message'', JStr [])])\<rparr>"

definition loggedOut :: world where
  "loggedOut = \<lparr>localStorage = Map.empty, user = JNull, navigated = [], fetched = []\<rparr>"

definition staleSession :: world where
  "staleSession =
     \<lparr>localStorage = [js ''token'' \<mapsto> js ''revoked''], user = JNull, navigated = [], fetched = []\<rparr>"

definition aliceSession :: world where
  "aliceSession =
     \<lparr>localStorage = [js ''token'' \<mapsto> js ''abc123''],
      user = JObj [(js ''utorid'', JStr (js ''alice''))],
      navigated = [js ''/profile''], fetched = []\<rparr>"

section \<open>Properties of strings\<close>

lemma js_Nil: "js [] = []"
  by (simp add: js_def)

lemma trim_Nil: "trim [] = []"
  by (simp add: trim_def)

lemma trim_ends:
  assumes "trim s \<noteq> []"
  shows "\<not> isWhiteSpace (hd (trim s))" and "\<not> isWhiteSpace (last (trim s))"
proof -
  let ?d = "dropWhile isWhiteSpace s"
  let ?r = "dropWhile isWhiteSpace (rev ?d)"
  from assms have r: "?r \<noteq> []" by (simp add: trim_def)
  then have "\<not> isWhiteSpace (hd ?r)" by (rule hd_dropWhile)
  with r show "\<not> isWhiteSpace (last (trim s))" by (simp add: trim_def last_rev)
  have d: "?d \<noteq> []"
  proof
    assume "?d = []"
    with r show False by simp
  qed
  then have hd: "\<not> isWhiteSpace (hd ?d)" by (rule hd_dropWhile)
  have "\<exists>ys. rev ?d = ys @ ?r" by (metis takeWhile_dropWhile_id)
  then obtain ys where "rev ?d = ys @ ?r" ..
  then have eq: "?d = rev ?r @ rev ys" by (metis rev_append rev_rev_ident)
  from r have "rev ?r \<noteq> []" by (simp only: rev_is_Nil_conv not_False_eq_True)
  with eq have "hd ?d = hd (rev ?r)" by (metis hd_append2)
  with hd show "\<not> isWhiteSpace (hd (trim s))" by (simp add: trim_def)
qed

lemma trim_fixed:
  assumes "s \<noteq> []" "\<not> isWhiteSpace (hd s)" "\<not> isWhiteSpace (last s)"
  shows "trim s = s"
proof -
  from assms have front: "dropWhile isWhiteSpace s = s" by (cases s) auto
  from assms have "rev s \<noteq> []" "\<not> isWhiteSpace (hd (rev s))" by (simp_all add: hd_rev)
  then have "dropWhile isWhiteSpace (rev s) = rev s" by (cases "rev s") auto
  with front show ?thesis by (simp add: trim_def)
qed

lemma length_trim: "length (trim s) \<le> length s"
proof -
  have "length (dropWhile isWhiteSpace (rev (dropWhile isWhiteSpace s)))
          \<le> length (dropWhile isWhiteSpace s)"
    by (metis length_dropWhile_le length_rev)
  also have "\<dots> \<le> length s" by (rule length_dropWhile_le)
  finally show ?thesis by (simp add: trim_def)
qed

lemma slash_not_space: "\<not> isWhiteSpace slash"
  by (simp add: isWhiteSpace_def slash_def)

lemma hd_butlast_nonempty: "butlast xs \<noteq> [] \<Longrightarrow> hd (butlast xs) = hd xs"
  by (cases xs) (auto split: if_splits)

lemma butlast_shorter: "xs \<noteq> [] \<Longrightarrow> length (butlast xs) < length xs"
  by simp

lemma length_stripTrailingSlash: "length (stripTrailingSlash s) \<le> length s"
  by (simp add: stripTrailingSlash_def)

lemma stripTrailingSlash_fixed: "stripTrailingSlash s = s \<longleftrightarrow> s = [] \<or> last s \<noteq> slash"
proof (cases "s \<noteq> [] \<and> last s = slash")
  case True
  then have "length (butlast s) < length s" by (simp add: butlast_shorter)
  then have "butlast s \<noteq> s" by (metis less_irrefl)
  with True show ?thesis by (simp add: stripTrailingSlash_def)
next
  case False
  then show ?thesis by (auto simp: stripTrailingSlash_def)
qed

lemma sanitizeOrigin_front:
  assumes "sanitizeOrigin (Some s) \<noteq> []"
  shows "\<not> isWhiteSpace (hd (sanitizeOrigin (Some s)))"
proof -
  let ?t = "trim s"
  have r: "sanitizeOrigin (Some s) = stripTrailingSlash ?t" by (simp add: sanitizeOrigin_def)
  with assms have t: "?t \<noteq> []" by (auto simp: stripTrailingSlash_def)
  have "hd (stripTrailingSlash ?t) = hd ?t"
    using assms r by (auto simp: stripTrailingSlash_def hd_butlast_nonempty)
  with trim_ends(1) [OF t] r show ?thesis by simp
qed

lemma sanitize_again:
  assumes "r \<noteq> []" "\<not> isWhiteSpace (hd r)"
  shows "sanitizeOrigin (Some r) = r \<longleftrightarrow> last r \<noteq> slash \<and> \<not> isWhiteSpace (last r)"
proof (cases "isWhiteSpace (last r)")
  case True
  have "stripTrailingSlash (trim r) \<noteq> r"
  proof
    assume eq: "stripTrailingSlash (trim r) = r"
    with assms have t: "trim r \<noteq> []" by (auto simp: stripTrailingSlash_def)
    have "length (stripTrailingSlash (trim r)) \<le> length (trim r)"
      by (rule length_stripTrailingSlash)
    with eq have "length r \<le> length (trim r)" by simp
    moreover have "length (trim r) \<le> length r" by (rule length_trim)
    ultimately have len: "length (trim r) = length r" by simp
    have "stripTrailingSlash (trim r) = trim r"
    proof (rule ccontr)
      assume "stripTrailingSlash (trim r) \<noteq> trim r"
      then have "stripTrailingSlash (trim r) = butlast (trim r)"
        by (simp add: stripTrailingSlash_def split: if_splits)
      with t have "length (stripTrailingSlash (trim r)) < length (trim r)"
        by (simp add: butlast_shorter)
      with eq len show False by simp
    qed
    with eq have "trim r = r" by simp
    with trim_ends(2) [OF t] True show False by simp
  qed
  with True show ?thesis by (simp add: sanitizeOrigin_def)
next
  case False
  with assms have "trim r = r" by (simp add: trim_fixed)
  then have "sanitizeOrigin (Some r) = stripTrailingSlash r" by (simp add: sanitizeOrigin_def)
  with assms False show ?thesis by (simp add: stripTrailingSlash_fixed)
qed

section \<open>Origin normalization\<close>

text \<open>
  Claim C7, as amended. \<open>sanitizeOrigin\<close> trims white space and then removes one trailing
  slash. Normalizing the normalized value gives the same value exactly when that value is
  empty or ends neither in a slash nor in white space, that is, when the trimmed input
  does not end in a slash that follows another slash or white space. The two spellings
  \<open>http://example.com/\<close> and \<open>http://example.com\<close> have the same normal form.
\<close>

theorem sanitizeOrigin_idempotent_iff:
  "sanitizeOrigin (Some s) = stripTrailingSlash (trim s)
   \<and> (sanitizeOrigin (Some (sanitizeOrigin (Some s))) = sanitizeOrigin (Some s)
        \<longleftrightarrow> sanitizeOrigin (Some s) = []
            \<or> (last (sanitizeOrigin (Some s)) \<noteq> slash
                \<and> \<not> isWhiteSpace (last (sanitizeOrigin (Some s)))))
   \<and> sanitizeOrigin (Some (js ''http://example.com/''))
       = sanitizeOrigin (Some (js ''http://example.com''))"
proof (intro conjI)
  show "sanitizeOrigin (Some s) = stripTrailingSlash (trim s)"
    by (simp add: sanitizeOrigin_def)
next
  let ?r = "sanitizeOrigin (Some s)"
  show "sanitizeOrigin (Some ?r) = ?r \<longleftrightarrow> ?r = [] \<or> (last ?r \<noteq> slash \<and> \<not> isWhiteSpace (last ?r))"
  proof (cases "?r = []")
    case True
    then show ?thesis by (simp add: sanitizeOrigin_def trim_Nil stripTrailingSlash_def)
  next
    case False
    then have "\<not> isWhiteSpace (hd ?r)" by (rule sanitizeOrigin_front)
    with False show ?thesis by (simp add: sanitize_again)
  qed
next
  show "sanitizeOrigin (Some (js ''http://example.com/''))
          = sanitizeOrigin (Some (js ''http://example.com''))"
    by code_simp
qed

text \<open>
  The amended claim at the input \<open>" http://example.com/ "\<close>: its normal form ends in
  \<open>m\<close>, and normalizing again changes nothing.
\<close>

theorem sanitizeOrigin_idempotent_witness:
  "sanitizeOrigin (Some (js '' http://example.com/ '')) = js ''http://example.com''
   \<and> sanitizeOrigin (Some (sanitizeOrigin (Some (js '' http://example.com/ ''))))
       = sanitizeOrigin (Some (js '' http://example.com/ ''))"
proof -
  let ?r = "sanitizeOrigin (Some (js '' http://example.com/ ''))"
  have r: "?r = js ''http://example.com''" by code_simp
  have "last (js ''http://example.com'') \<noteq> slash \<and> \<not> isWhiteSpace (last (js ''http://example.com''))"
    by code_simp
  with r have "?r = [] \<or> (last ?r \<noteq> slash \<and> \<not> isWhiteSpace (last ?r))" by simp
  with sanitizeOrigin_idempotent_iff [of "js '' http://example.com/ ''"]
  have "sanitizeOrigin (Some ?r) = ?r" by blast
  with r show ?thesis by simp
qed

text \<open>
  Claim C7 as stated fails: only one of two trailing slashes is removed, so a second
  normalization removes the other.
\<close>

theorem sanitizeOrigin_idempotent_counterexample:
  "sanitizeOrigin (Some (js ''http://example.com//'')) = js ''http://example.com/''
   \<and> sanitizeOrigin (Some (sanitizeOrigin (Some (js ''http://example.com//''))))
       = js ''http://example.com''
   \<and> sanitizeOrigin (Some (sanitizeOrigin (Some (js ''http://example.com//''))))
       \<noteq> sanitizeOrigin (Some (js ''http://example.com//''))"
  by code_simp

section \<open>The origin gate\<close>

lemma runMiddleware_rejected:
  "m req = NextErr err \<Longrightarrow> runMiddleware (m # ms) req = Inl err"
  by simp

text \<open>
  Claim C3, as amended. The gate admits a request that has no Origin header or an empty
  one, every request in allow-all mode, and a request whose normalized origin is in the
  allow set; any other request is rejected with the error \<open>Not allowed by CORS\<close>, and
  the application answers with that error whatever the later middleware and the routes
  are. Allow-all mode holds exactly when every entry of the configured list is empty after
  normalization; the allow set is the normalized defaults together with the normalized
  non-empty configured entries.
\<close>

theorem corsOrigin_decision:
  "corsOrigin FRONTEND_URL hdr =
     (if hdr = None \<or> hdr = Some [] \<or> allowAllOrigins FRONTEND_URL
         \<or> sanitizeOrigin hdr \<in> allowedOrigins FRONTEND_URL
      then CallbackOk
      else CallbackErr (Error (js ''Not allowed by CORS'')))
   \<and> (allowAllOrigins FRONTEND_URL \<longleftrightarrow>
        (\<forall>entry \<in> set (split_comma (case FRONTEND_URL of None \<Rightarrow> [] | Some s \<Rightarrow> s)).
           sanitizeOrigin (Some entry) = []))
   \<and> allowedOrigins FRONTEND_URL =
        (\<lambda>entry. sanitizeOrigin (Some entry)) ` set DEFAULT_ALLOWED_ORIGINS
        \<union> {sanitizeOrigin (Some entry) | entry.
             entry \<in> set (split_comma (case FRONTEND_URL of None \<Rightarrow> [] | Some s \<Rightarrow> s))
             \<and> sanitizeOrigin (Some entry) \<noteq> []}
   \<and> (corsOrigin FRONTEND_URL (originHeader req) \<noteq> CallbackOk \<longrightarrow>
        app FRONTEND_URL admitted express_json routes req
          = Inl (Error (js ''Not allowed by CORS'')))"
proof (intro conjI)
  show "corsOrigin FRONTEND_URL hdr =
     (if hdr = None \<or> hdr = Some [] \<or> allowAllOrigins FRONTEND_URL
         \<or> sanitizeOrigin hdr \<in> allowedOrigins FRONTEND_URL
      then CallbackOk
      else CallbackErr (Error (js ''Not allowed by CORS'')))"
    by (simp add: corsOrigin_def)
next
  show "allowAllOrigins FRONTEND_URL \<longleftrightarrow>
        (\<forall>entry \<in> set (split_comma (case FRONTEND_URL of None \<Rightarrow> [] | Some s \<Rightarrow> s)).
           sanitizeOrigin (Some entry) = [])"
    by (simp add: allowAllOrigins_def configuredOrigins_def filter_empty_conv)
next
  show "allowedOrigins FRONTEND_URL =
        (\<lambda>entry. sanitizeOrigin (Some entry)) ` set DEFAULT_ALLOWED_ORIGINS
        \<union> {sanitizeOrigin (Some entry) | entry.
             entry \<in> set (split_comma (case FRONTEND_URL of None \<Rightarrow> [] | Some s \<Rightarrow> s))
             \<and> sanitizeOrigin (Some entry) \<noteq> []}"
    by (auto simp: allowedOrigins_def defaultOrigins_def configuredOrigins_def)
next
  show "corsOrigin FRONTEND_URL (originHeader req) \<noteq> CallbackOk \<longrightarrow>
        app FRONTEND_URL admitted express_json routes req
          = Inl (Error (js ''Not allowed by CORS''))"
  proof
    assume "corsOrigin FRONTEND_URL (originHeader req) \<noteq> CallbackOk"
    then have "corsOrigin FRONTEND_URL (originHeader req)
                 = CallbackErr (Error (js ''Not allowed by CORS''))"
      by (simp add: corsOrigin_def Let_def split: if_splits)
    then have "corsMiddleware FRONTEND_URL admitted req
                 = NextErr (Error (js ''Not allowed by CORS''))"
      by (simp add: corsMiddleware_def)
    then show "app FRONTEND_URL admitted express_json routes req
                 = Inl (Error (js ''Not allowed by CORS''))"
      unfolding app_def by (rule runMiddleware_rejected)
  qed
qed

text \<open>
  The amended claim with \<open>https://app.example.com\<close> configured: a request from
  \<open>https://evil.example\<close> is rejected before the routes, one from the configured origin
  (written with a trailing slash) and one from a default origin are admitted.
\<close>

theorem corsOrigin_decision_witness:
  "\<not> allowAllOrigins (Some (js ''https://app.example.com''))
   \<and> sanitizeOrigin (Some (js ''https://evil.example''))
       \<notin> allowedOrigins (Some (js ''https://app.example.com''))
   \<and> corsOrigin (Some (js ''https://app.example.com'')) (Some (js ''https://evil.example''))
       = CallbackErr (Error (js ''Not allowed by CORS''))
   \<and> app (Some (js ''https://app.example.com'')) Next Next (\<lambda>req. Respond True)
         \<lparr>originHeader = Some (js ''https://evil.example'')\<rparr>
       = Inl (Error (js ''Not allowed by CORS''))
   \<and> corsOrigin (Some (js ''https://app.example.com'')) (Some (js ''https://app.example.com/''))
       = CallbackOk
   \<and> corsOrigin (Some (js ''https://app.example.com'')) (Some (js ''http://localhost:5173''))
       = CallbackOk
   \<and> corsOrigin (Some (js ''https://app.example.com'')) None = CallbackOk"
proof -
  let ?fe = "Some (js ''https://app.example.com'')"
  let ?evil = "Some (js ''https://evil.example'')"
  let ?req = "\<lparr>originHeader = ?evil\<rparr>"
  note gate = corsOrigin_decision [of ?fe _ ?req Next Next "\<lambda>req. Respond True"]
  have mode: "\<not> allowAllOrigins ?fe" by code_simp
  have out: "sanitizeOrigin ?evil \<notin> allowedOrigins ?fe" by code_simp
  have inside: "sanitizeOrigin (Some (js ''https://app.example.com/'')) \<in> allowedOrigins ?fe"
    by code_simp
  have local: "sanitizeOrigin (Some (js ''http://localhost:5173'')) \<in> allowedOrigins ?fe"
    by code_simp
  have evil: "?evil \<noteq> None \<and> ?evil \<noteq> Some []" by code_simp
  from gate [of ?evil] mode out evil
  have rejected: "corsOrigin ?fe ?evil = CallbackErr (Error (js ''Not allowed by CORS''))"
    by simp
  then have "corsOrigin ?fe (originHeader ?req) \<noteq> CallbackOk" by simp
  with gate [of ?evil]
  have stopped: "app ?fe Next Next (\<lambda>req. Respond True) ?req
                   = Inl (Error (js ''Not allowed by CORS''))"
    by blast
  from gate [of "Some (js ''https://app.example.com/'')"] inside
  have a: "corsOrigin ?fe (Some (js ''https://app.example.com/'')) = CallbackOk" by simp
  from gate [of "Some (js ''http://localhost:5173'')"] local
  have b: "corsOrigin ?fe (Some (js ''http://localhost:5173'')) = CallbackOk" by simp
  from gate [of None] have c: "corsOrigin ?fe None = CallbackOk" by simp
  from mode out rejected stopped a b c show ?thesis by blast
qed

text \<open>
  Claim C3 as stated fails on a request whose Origin header is present and empty: the gate
  is not in allow-all mode and the normalized origin is not in the allow set, yet the
  request is admitted, because \<open>!origin\<close> holds for the empty string.
\<close>

theorem corsOrigin_empty_origin_counterexample:
  "originHeader \<lparr>originHeader = Some []\<rparr> \<noteq> None
   \<and> \<not> allowAllOrigins (Some (js ''https://app.example.com''))
   \<and> sanitizeOrigin (Some []) \<notin> allowedOrigins (Some (js ''https://app.example.com''))
   \<and> corsOrigin (Some (js ''https://app.example.com''))
        (originHeader \<lparr>originHeader = Some []\<rparr>) = CallbackOk"
  by code_simp

section \<open>The backend address\<close>

lemma js_slash: "js ''/'' = [slash]"
  by (simp add: js_def slash_def)

lemma startsWith_slash: "startsWith path [slash] \<longleftrightarrow> path \<noteq> [] \<and> hd path = slash"
  by (cases path) (simp_all add: startsWith_def)

text \<open>
  Claim C6. The URL of a request is the resolved base, one slash, and the path without
  the slash it may begin with: a path that begins with a slash is appended as it is, any
  other path is appended after a slash. The base is the configured URL, trimmed and
  without one trailing slash, when that URL is not empty after trimming; otherwise the
  origin of the window when there is one; otherwise \<open>http://localhost:3000\<close>.
\<close>

theorem buildApiUrl_one_slash:
  "buildApiUrl e path =
     resolveBackendUrl e @ [slash] @ (if startsWith path (js ''/'') then tl path else path)
   \<and> (startsWith path (js ''/'') \<longrightarrow> buildApiUrl e path = resolveBackendUrl e @ path)
   \<and> (VITE_BACKEND_URL e = Some envUrl \<and> trim envUrl \<noteq> [] \<longrightarrow>
        resolveBackendUrl e = stripTrailingSlash (trim envUrl))
   \<and> (VITE_BACKEND_URL e = None \<or> (VITE_BACKEND_URL e = Some envUrl \<and> trim envUrl = []) \<longrightarrow>
        (window e = Some win \<and> window_location win = Some loc \<and> location_origin loc \<noteq> [] \<longrightarrow>
           resolveBackendUrl e = location_origin loc)
        \<and> (window e = None
            \<or> (window e = Some win
                \<and> (window_location win = None
                    \<or> (window_location win = Some loc \<and> location_origin loc = []))) \<longrightarrow>
           resolveBackendUrl e = js ''http://localhost:3000''))"
proof (intro conjI)
  show "buildApiUrl e path =
     resolveBackendUrl e @ [slash] @ (if startsWith path (js ''/'') then tl path else path)"
    by (cases path) (simp_all add: buildApiUrl_def BACKEND_URL_def js_slash startsWith_slash)
next
  show "startsWith path (js ''/'') \<longrightarrow> buildApiUrl e path = resolveBackendUrl e @ path"
    by (simp add: buildApiUrl_def BACKEND_URL_def)
next
  show "VITE_BACKEND_URL e = Some envUrl \<and> trim envUrl \<noteq> [] \<longrightarrow>
        resolveBackendUrl e = stripTrailingSlash (trim envUrl)"
    by (auto simp: resolveBackendUrl_def trim_Nil)
next
  show "VITE_BACKEND_URL e = None \<or> (VITE_BACKEND_URL e = Some envUrl \<and> trim envUrl = []) \<longrightarrow>
        (window e = Some win \<and> window_location win = Some loc \<and> location_origin loc \<noteq> [] \<longrightarrow>
           resolveBackendUrl e = location_origin loc)
        \<and> (window e = None
            \<or> (window e = Some win
                \<and> (window_location win = None
                    \<or> (window_location win = Some loc \<and> location_origin loc = []))) \<longrightarrow>
           resolveBackendUrl e = js ''http://localhost:3000'')"
    by (auto simp: resolveBackendUrl_def)
qed

text \<open>
  The claim with the backend configured as \<open>" http://api.example.com/ "\<close>: the paths
  \<open>/login\<close> and \<open>login\<close> give the same URL; and with nothing configured, in a window
  at \<open>https://app.example.com\<close> and without a window.
\<close>

theorem buildApiUrl_one_slash_witness:
  "trim (js '' http://api.example.com/ '') \<noteq> []
   \<and> resolveBackendUrl exampleEnv = js ''http://api.example.com''
   \<and> buildApiUrl exampleEnv (js ''/login'') = js ''http://api.example.com/login''
   \<and> buildApiUrl exampleEnv (js ''login'') = js ''http://api.example.com/login''
   \<and> resolveBackendUrl
        \<lparr>VITE_BACKEND_URL = Some (js '' ''),
         window = Some \<lparr>window_location = Some \<lparr>location_origin = js ''https://app.example.com''\<rparr>\<rparr>\<rparr>
       = js ''https://app.example.com''
   \<and> resolveBackendUrl \<lparr>VITE_BACKEND_URL = None, window = None\<rparr> = js ''http://localhost:3000''"
proof -
  let ?configured = "js '' http://api.example.com/ ''"
  let ?loc = "\<lparr>location_origin = js ''https://app.example.com''\<rparr>"
  let ?win = "\<lparr>window_location = Some ?loc\<rparr>"
  let ?browser = "\<lparr>VITE_BACKEND_URL = Some (js '' ''), window = Some ?win\<rparr>"
  let ?bare = "\<lparr>VITE_BACKEND_URL = None, window = None\<rparr> :: env"
  have conf: "VITE_BACKEND_URL exampleEnv = Some ?configured" by (simp add: exampleEnv_def)
  have nonempty: "trim ?configured \<noteq> []" by code_simp
  have stripped: "stripTrailingSlash (trim ?configured) = js ''http://api.example.com''"
    by code_simp
  from buildApiUrl_one_slash [of exampleEnv _ ?configured] conf nonempty stripped
  have base: "resolveBackendUrl exampleEnv = js ''http://api.example.com''" by simp
  have with_slash: "startsWith (js ''/login'') (js ''/'')" by code_simp
  have without: "\<not> startsWith (js ''login'') (js ''/'')" by code_simp
  have joined: "js ''http://api.example.com'' @ [slash] @ tl (js ''/login'')
                  = js ''http://api.example.com/login''"
    "js ''http://api.example.com'' @ [slash] @ js ''login'' = js ''http://api.example.com/login''"
    by code_simp+
  from buildApiUrl_one_slash [of exampleEnv "js ''/login''"] base with_slash joined
  have a: "buildApiUrl exampleEnv (js ''/login'') = js ''http://api.example.com/login''"
    by simp
  from buildApiUrl_one_slash [of exampleEnv "js ''login''"] base without joined
  have b: "buildApiUrl exampleEnv (js ''login'') = js ''http://api.example.com/login''"
    by simp
  have blank: "trim (js '' '') = []" by code_simp
  have origin: "location_origin ?loc \<noteq> []" by code_simp
  from buildApiUrl_one_slash [of ?browser _ "js '' ''" ?win ?loc] blank origin
  have c: "resolveBackendUrl ?browser = js ''https://app.example.com''" by simp
  from buildApiUrl_one_slash [of ?bare]
  have d: "resolveBackendUrl ?bare = js ''http://localhost:3000''" by simp
  from nonempty base a b c d show ?thesis by blast
qed

section \<open>The session\<close>

lemmas world_ops =
  getItem_def setItem_def removeItem_def setUser_def navigate_def fetch_def getStoredToken_def

lemmas promise_ops = then_promise_def catch_promise_def

text \<open>
  Claim C5. From every state, \<open>logout\<close> removes the stored token, sets the user to
  \<open>null\<close>, navigates to \<open>/\<close> and sends no request. A second \<open>logout\<close> does the same
  steps again: the stored data and the user stay as the first left them, and \<open>/\<close> is
  navigated to once more.
\<close>

theorem logout_clears_session:
  "getStoredToken (logout w) = None
   \<and> localStorage (logout w) = (localStorage w)(js ''token'' := None)
   \<and> user (logout w) = JNull
   \<and> navigated (logout w) = navigated w @ [js ''/'']
   \<and> fetched (logout w) = fetched w
   \<and> localStorage (logout (logout w)) = localStorage (logout w)
   \<and> user (logout (logout w)) = user (logout w)
   \<and> navigated (logout (logout w)) = navigated (logout w) @ [js ''/'']
   \<and> fetched (logout (logout w)) = fetched w"
  by (simp add: logout_def world_ops)

text \<open>The claim on a logged-in session, and on the logged-out session that results.\<close>

theorem logout_clears_session_witness:
  "getStoredToken aliceSession = Some (js ''abc123'')
   \<and> getStoredToken (logout aliceSession) = None
   \<and> user (logout aliceSession) = JNull
   \<and> navigated (logout aliceSession) = [js ''/profile'', js ''/'']
   \<and> getStoredToken (logout (logout aliceSession)) = None
   \<and> user (logout (logout aliceSession)) = JNull
   \<and> navigated (logout (logout aliceSession)) = [js ''/profile'', js ''/'', js ''/'']
   \<and> fetched (logout (logout aliceSession)) = []"
proof -
  have stored: "getStoredToken aliceSession = Some (js ''abc123'')" by code_simp
  have before: "navigated aliceSession = [js ''/profile'']" "fetched aliceSession = []"
    by (simp_all add: aliceSession_def)
  note once = logout_clears_session [of aliceSession]
  note twice = logout_clears_session [of "logout aliceSession"]
  from once have "user (logout (logout aliceSession)) = JNull" by simp
  moreover from twice have "getStoredToken (logout (logout aliceSession)) = None" by simp
  ultimately show ?thesis using stored before once by simp
qed

text \<open>
  Claim C9. When nothing is stored under \<open>token\<close>, the effect sets the user to \<open>null\<close>
  and is finished: no call is left in flight and no request has been sent.
\<close>

theorem restore_without_token:
  assumes "getStoredToken w = None"
  shows "useEffect_mount e eng w = (None, setUser JNull w)
    \<and> restore e eng net w = (Inr (), setUser JNull w)
    \<and> user (snd (restore e eng net w)) = JNull
    \<and> fetched (snd (restore e eng net w)) = fetched w"
  using assms by (simp add: useEffect_mount_def restore_def setUser_def)

theorem restore_without_token_witness:
  "getStoredToken loggedOut = None
   \<and> fst (useEffect_mount exampleEnv v8 loggedOut) = None
   \<and> user (snd (restore exampleEnv v8 exampleServer loggedOut)) = JNull
   \<and> fetched (snd (restore exampleEnv v8 exampleServer loggedOut)) = []"
proof -
  have empty: "getStoredToken loggedOut = None" by code_simp
  have "fetched loggedOut = []" by (simp add: loggedOut_def)
  with restore_without_token [OF empty, of exampleEnv v8 exampleServer] empty
  show ?thesis by (simp add: setUser_def)
qed

text \<open>
  The ways the identity resolution fails that the specification names: \<open>fetch\<close> rejects,
  the status is not a success, or the body of a success does not parse.
\<close>

lemma fetchCurrentUser_response_fails:
  assumes "res = Rejected err \<or> (res = Resolved r \<and> (\<not> ok r \<or> isl (json r)))"
  shows "isl (fetchCurrentUser_response eng res)"
  using assms
  by (auto simp: fetchCurrentUser_response_def Let_def isl_def split: sum.splits)

text \<open>
  Claim C2. A token is stored, the effect is not cleaned up before the outcome arrives,
  and \<open>fetchCurrentUser\<close> fails, for whatever reason. Then the chain of promises ends
  fulfilled, so no error reaches anyone, the user is \<open>null\<close> and the token is gone from
  storage. This holds in whatever state \<open>w'\<close> the outcome arrives, and so for the
  effect run without interruption.
\<close>

theorem restore_rejected_token:
  assumes "getStoredToken w = Some token" and "token \<noteq> []"
    and "fetchCurrentUser_request e eng (JStr token) = Inr req"
    and "isl (fetchCurrentUser_response eng (net req))"
  shows "useEffect_mount e eng w = (Some \<lparr>isSubscribed = True, inflight = Inr req\<rparr>, fetch req w)
    \<and> useEffect_settle eng \<lparr>isSubscribed = True, inflight = Inr req\<rparr> (net req) w'
        = (Inr (), setUser JNull (removeItem (js ''token'') w'))
    \<and> fst (restore e eng net w) = Inr ()
    \<and> user (snd (restore e eng net w)) = JNull
    \<and> getStoredToken (snd (restore e eng net w)) = None"
  using assms
  by (auto simp: restore_def useEffect_mount_def useEffect_settle_def promise_ops world_ops
      isl_def)

text \<open>The claim on a session whose stored token the server answers with status 401.\<close>

theorem restore_rejected_token_witness:
  "getStoredToken staleSession = Some (js ''revoked'')
   \<and> fetchCurrentUser_response v8
        (exampleServer
           \<lparr>req_url = js ''http://api.example.com/user/me'', req_method = js ''GET'',
            req_headers = [(js ''Authorization'', js ''Bearer revoked'')], req_body = None\<rparr>)
       = Inl (Error (js ''Unauthorized''))
   \<and> fst (restore exampleEnv v8 exampleServer staleSession) = Inr ()
   \<and> user (snd (restore exampleEnv v8 exampleServer staleSession)) = JNull
   \<and> getStoredToken (snd (restore exampleEnv v8 exampleServer staleSession)) = None"
proof -
  let ?req = "\<lparr>req_url = js ''http://api.example.com/user/me'', req_method = js ''GET'',
               req_headers = [(js ''Authorization'', js ''Bearer revoked'')], req_body = None\<rparr>"
  have stored: "getStoredToken staleSession = Some (js ''revoked'')" by code_simp
  have truthy: "js ''revoked'' \<noteq> []" by code_simp
  have req: "fetchCurrentUser_request exampleEnv v8 (JStr (js ''revoked'')) = Inr ?req"
    by code_simp
  have answer: "fetchCurrentUser_response v8 (exampleServer ?req) = Inl (Error (js ''Unauthorized''))"
    by code_simp
  then have fails: "isl (fetchCurrentUser_response v8 (exampleServer ?req))" by simp
  from restore_rejected_token
         [of staleSession "js ''revoked''" exampleEnv v8 ?req exampleServer,
          OF stored truthy req fails]
       stored answer
  show ?thesis by simp
qed

text \<open>
  Claim C8. The effect has a call in flight and its cleanup runs. When the outcome of the
  call arrives afterwards, whatever it is and whatever the state then is, nothing is
  written: the user and the storage stay as they are, and the chain ends fulfilled. The
  flag is set when the effect starts and cleared by the cleanup.
\<close>

theorem restore_teardown:
  assumes "useEffect_mount e eng w0 = (Some eff, w1)"
  shows "isSubscribed eff
    \<and> \<not> isSubscribed (useEffect_cleanup eff)
    \<and> useEffect_settle eng (useEffect_cleanup eff) res w = (Inr (), w)"
proof -
  from assms have "isSubscribed eff"
    by (auto simp: useEffect_mount_def split: option.splits if_splits sum.splits)
  moreover have "\<not> isSubscribed (useEffect_cleanup eff)"
    by (simp add: useEffect_cleanup_def)
  moreover have "useEffect_settle eng (useEffect_cleanup eff) res w = (Inr (), w)"
    by (simp add: useEffect_settle_def useEffect_cleanup_def promise_ops split: sum.splits)
  ultimately show ?thesis by blast
qed

text \<open>
  The claim on the session with the revoked token: the server's 401 arrives after the
  cleanup and the token stays stored; had the cleanup not run, the token would be removed.
\<close>

theorem restore_teardown_witness:
  "fst (useEffect_mount exampleEnv v8 staleSession)
     = Some \<lparr>isSubscribed = True,
             inflight = Inr \<lparr>req_url = js ''http://api.example.com/user/me'',
                             req_method = js ''GET'',
                             req_headers = [(js ''Authorization'', js ''Bearer revoked'')],
                             req_body = None\<rparr>\<rparr>
   \<and> getStoredToken
        (snd (useEffect_settle v8
                (useEffect_cleanup (the (fst (useEffect_mount exampleEnv v8 staleSession))))
                (Resolved \<lparr>ok = False, json = Inr (JObj [])\<rparr>)
                (snd (useEffect_mount exampleEnv v8 staleSession))))
       = Some (js ''revoked'')
   \<and> getStoredToken
        (snd (useEffect_settle v8
                (the (fst (useEffect_mount exampleEnv v8 staleSession)))
                (Resolved \<lparr>ok = False, json = Inr (JObj [])\<rparr>)
                (snd (useEffect_mount exampleEnv v8 staleSession))))
       = None"
proof -
  let ?req = "\<lparr>req_url = js ''http://api.example.com/user/me'', req_method = js ''GET'',
               req_headers = [(js ''Authorization'', js ''Bearer revoked'')], req_body = None\<rparr>"
  let ?eff = "\<lparr>isSubscribed = True, inflight = Inr ?req\<rparr>"
  let ?w1 = "snd (useEffect_mount exampleEnv v8 staleSession)"
  let ?res = "Resolved \<lparr>ok = False, json = Inr (JObj [])\<rparr>"
  have started: "fst (useEffect_mount exampleEnv v8 staleSession) = Some ?eff" by code_simp
  then have mount: "useEffect_mount exampleEnv v8 staleSession = (Some ?eff, ?w1)"
    by (metis prod.collapse)
  have kept: "getStoredToken ?w1 = Some (js ''revoked'')" by code_simp
  from restore_teardown [OF mount, of ?res ?w1] kept
  have torn: "getStoredToken (snd (useEffect_settle v8 (useEffect_cleanup ?eff) ?res ?w1))
                = Some (js ''revoked'')"
    by simp
  have live: "getStoredToken (snd (useEffect_settle v8 ?eff ?res ?w1)) = None"
    by (simp add: useEffect_settle_def promise_ops world_ops fetchCurrentUser_response_def
        js_or_def split: sum.splits)
  from started torn live show ?thesis by simp
qed

section \<open>login\<close>

text \<open>
  Claim C1. The login request is answered with a success whose body holds a \<open>token\<close>
  (a string, or any value that converts to one), and \<open>fetchCurrentUser\<close> with that token
  succeeds. Then \<open>login\<close> returns the empty string, the token is stored under \<open>token\<close>,
  the user is the resolved identity and \<open>/profile\<close> has been navigated to.
\<close>

theorem login_success:
  assumes "net (login_request e username password) = Resolved response"
    and "ok response"
    and "json response = Inr data"
    and "getProp eng data (js ''token'') = Inr token"
    and "toStringJS eng token = Inr t"
    and "fetchCurrentUser_request e eng token = Inr req"
    and "fetchCurrentUser_response eng (net req) = Inr identity"
  shows "fst (login e eng net username password w) = JStr []
    \<and> getStoredToken (snd (login e eng net username password w)) = Some t
    \<and> user (snd (login e eng net username password w)) = identity
    \<and> navigated (snd (login e eng net username password w)) = navigated w @ [js ''/profile'']"
  using assms
  by (simp add: login_def login_try_def fetchCurrentUser_def world_ops)

text \<open>The claim for \<open>alice\<close>, whose password the example server accepts.\<close>

theorem login_success_witness:
  "exampleServer (login_request exampleEnv (js ''alice'') (js ''rabbit''))
     = Resolved \<lparr>ok = True, json = Inr (JObj [(js ''token'', JStr (js ''abc123''))])\<rparr>
   \<and> fst (login exampleEnv v8 exampleServer (js ''alice'') (js ''rabbit'') loggedOut) = JStr []
   \<and> getStoredToken (snd (login exampleEnv v8 exampleServer (js ''alice'') (js ''rabbit'') loggedOut))
       = Some (js ''abc123'')
   \<and> user (snd (login exampleEnv v8 exampleServer (js ''alice'') (js ''rabbit'') loggedOut))
       = JObj [(js ''utorid'', JStr (js ''alice''))]
   \<and> navigated (snd (login exampleEnv v8 exampleServer (js ''alice'') (js ''rabbit'') loggedOut))
       = [js ''/profile'']"
proof -
  let ?data = "JObj [(js ''token'', JStr (js ''abc123''))]"
  let ?response = "\<lparr>ok = True, json = Inr ?data\<rparr>"
  let ?req = "\<lparr>req_url = js ''http://api.example.com/user/me'', req_method = js ''GET'',
               req_headers = [(js ''Authorization'', js ''Bearer abc123'')], req_body = None\<rparr>"
  let ?identity = "JObj [(js ''utorid'', JStr (js ''alice''))]"
  have answer: "exampleServer (login_request exampleEnv (js ''alice'') (js ''rabbit''))
                  = Resolved ?response"
    by code_simp
  have success: "ok ?response" by simp
  have body: "json ?response = Inr ?data" by simp
  have token: "getProp v8 ?data (js ''token'') = Inr (JStr (js ''abc123''))" by code_simp
  have printed: "toStringJS v8 (JStr (js ''abc123'')) = Inr (js ''abc123'')" by simp
  have req: "fetchCurrentUser_request exampleEnv v8 (JStr (js ''abc123'')) = Inr ?req"
    by code_simp
  have resolved: "fetchCurrentUser_response v8 (exampleServer ?req) = Inr ?identity"
    by code_simp
  have before: "navigated loggedOut = []" by (simp add: loggedOut_def)
  from login_success
         [of exampleServer exampleEnv "js ''alice''" "js ''rabbit''" ?response ?data v8
             "JStr (js ''abc123'')" "js ''abc123''" ?req ?identity loggedOut,
          OF answer success body token printed req resolved]
       answer before
  show ?thesis by simp
qed

text \<open>
  Claim C4, as amended. The login request is answered with a status that is not a
  success. Then nothing but the request log changes: the storage, the user and the
  navigation are as before. When the body does not parse, \<open>login\<close> returns
  \<open>Failed to login\<close>; when it parses to a value other than \<open>null\<close>, \<open>login\<close> returns the
  \<open>message\<close> of that value if it is truthy (present, and not empty, \<open>false\<close>, \<open>0\<close> or
  \<open>null\<close>), and \<open>Failed to login\<close> otherwise.
\<close>

theorem login_rejected:
  assumes "net (login_request e username password) = Resolved response"
    and "\<not> ok response"
  shows "localStorage (snd (login e eng net username password w)) = localStorage w
    \<and> user (snd (login e eng net username password w)) = user w
    \<and> navigated (snd (login e eng net username password w)) = navigated w
    \<and> (json response = Inl err \<longrightarrow>
         fst (login e eng net username password w) = JStr (js ''Failed to login''))
    \<and> (json response = Inr errorBody \<and> errorBody \<noteq> JNull \<and> errorBody \<noteq> JUndefined
         \<and> getProp eng errorBody (js ''message'') = Inr m \<longrightarrow>
         fst (login e eng net username password w)
           = (if truthy m then m else JStr (js ''Failed to login'')))"
  using assms
  by (auto simp: login_def login_try_def Let_def world_ops js_or_def split: sum.splits)

text \<open>
  The amended claim for credentials the example server refuses with the message
  \<open>bad creds\<close>.
\<close>

theorem login_rejected_witness:
  "exampleServer (login_request exampleEnv (js ''eve'') (js ''guess''))
     = Resolved \<lparr>ok = False, json = Inr (JObj [(js ''message'', JStr (js ''bad creds''))])\<rparr>
   \<and> fst (login exampleEnv v8 exampleServer (js ''eve'') (js ''guess'') aliceSession)
       = JStr (js ''bad creds'')
   \<and> getStoredToken (snd (login exampleEnv v8 exampleServer (js ''eve'') (js ''guess'') aliceSession))
       = Some (js ''abc123'')
   \<and> user (snd (login exampleEnv v8 exampleServer (js ''eve'') (js ''guess'') aliceSession))
       = user aliceSession
   \<and> navigated (snd (login exampleEnv v8 exampleServer (js ''eve'') (js ''guess'') aliceSession))
       = navigated aliceSession"
proof -
  let ?body = "JObj [(js ''message'', JStr (js ''bad creds''))]"
  let ?response = "\<lparr>ok = False, json = Inr ?body\<rparr>"
  have answer: "exampleServer (login_request exampleEnv (js ''eve'') (js ''guess''))
                  = Resolved ?response"
    by code_simp
  have refused: "\<not> ok ?response" by simp
  have msg: "getProp v8 ?body (js ''message'') = Inr (JStr (js ''bad creds''))" by code_simp
  have nonempty: "truthy (JStr (js ''bad creds''))" by code_simp
  have stored: "getStoredToken aliceSession = Some (js ''abc123'')" by code_simp
  from login_rejected
         [of exampleServer exampleEnv "js ''eve''" "js ''guess''" ?response v8 aliceSession
             _ ?body "JStr (js ''bad creds'')",
          OF answer refused]
       answer msg nonempty stored
  show ?thesis by (simp add: getStoredToken_def getItem_def)
qed

text \<open>
  Claim C4 as stated fails when the server supplies an empty message: the message is
  present in the body, and \<open>login\<close> returns the fallback instead of it.
\<close>

theorem login_empty_message_counterexample:
  "silentServer (login_request exampleEnv (js ''eve'') (js ''guess''))
     = Resolved \<lparr>ok = False, json = Inr (JObj [(js ''message'', JStr [])])\<rparr>
   \<and> map_of [(js ''message'', JStr [])] (js ''message'') = Some (JStr [])
   \<and> fst (login exampleEnv v8 silentServer (js ''eve'') (js ''guess'') loggedOut)
       = JStr (js ''Failed to login'')
   \<and> fst (login exampleEnv v8 silentServer (js ''eve'') (js ''guess'') loggedOut) \<noteq> JStr []"
  by code_simp

text \<open>
  Claim C10. The login request is answered with a success whose body holds a \<open>token\<close>
  (a string, or any value that converts to one), and \<open>fetchCurrentUser\<close> with that token
  fails with an error. Then \<open>login\<close>
  returns a string that is not empty (the message of the error, or \<open>Failed to login\<close>
  when that is empty), the new token is stored all the same, and the user and the
  navigation are as before.
\<close>

theorem login_resolution_fails:
  assumes "net (login_request e username password) = Resolved response"
    and "ok response"
    and "json response = Inr data"
    and "getProp eng data (js ''token'') = Inr token"
    and "toStringJS eng token = Inr t"
    and "fetchCurrentUser_request e eng token = Inr req"
    and "fetchCurrentUser_response eng (net req) = Inl err"
  shows "fst (login e eng net username password w)
           = JStr (if message err = [] then js ''Failed to login'' else message err)
    \<and> fst (login e eng net username password w) \<noteq> JStr []
    \<and> getStoredToken (snd (login e eng net username password w)) = Some t
    \<and> user (snd (login e eng net username password w)) = user w
    \<and> navigated (snd (login e eng net username password w)) = navigated w"
proof -
  have "js ''Failed to login'' \<noteq> []" by (simp add: js_def)
  with assms show ?thesis
    by (simp add: login_def login_try_def fetchCurrentUser_def world_ops js_or_def)
qed

text \<open>
  The claim for \<open>bob\<close>, to whom the example server hands a token that it then refuses.
\<close>

theorem login_resolution_fails_witness:
  "exampleServer (login_request exampleEnv (js ''bob'') (js ''builder''))
     = Resolved \<lparr>ok = True, json = Inr (JObj [(js ''token'', JStr (js ''revoked''))])\<rparr>
   \<and> fst (login exampleEnv v8 exampleServer (js ''bob'') (js ''builder'') loggedOut)
       = JStr (js ''Unauthorized'')
   \<and> getStoredToken (snd (login exampleEnv v8 exampleServer (js ''bob'') (js ''builder'') loggedOut))
       = Some (js ''revoked'')
   \<and> user (snd (login exampleEnv v8 exampleServer (js ''bob'') (js ''builder'') loggedOut)) = JNull
   \<and> navigated (snd (login exampleEnv v8 exampleServer (js ''bob'') (js ''builder'') loggedOut)) = []"
proof -
  let ?data = "JObj [(js ''token'', JStr (js ''revoked''))]"
  let ?response = "\<lparr>ok = True, json = Inr ?data\<rparr>"
  let ?req = "\<lparr>req_url = js ''http://api.example.com/user/me'', req_method = js ''GET'',
               req_headers = [(js ''Authorization'', js ''Bearer revoked'')], req_body = None\<rparr>"
  let ?err = "Error (js ''Unauthorized'')"
  have answer: "exampleServer (login_request exampleEnv (js ''bob'') (js ''builder''))
                  = Resolved ?response"
    by code_simp
  have success: "ok ?response" by simp
  have body: "json ?response = Inr ?data" by simp
  have token: "getProp v8 ?data (js ''token'') = Inr (JStr (js ''revoked''))" by code_simp
  have printed: "toStringJS v8 (JStr (js ''revoked'')) = Inr (js ''revoked'')" by simp
  have req: "fetchCurrentUser_request exampleEnv v8 (JStr (js ''revoked'')) = Inr ?req"
    by code_simp
  have refused: "fetchCurrentUser_response v8 (exampleServer ?req) = Inl ?err" by code_simp
  have worded: "message ?err \<noteq> []" by code_simp
  have before: "navigated loggedOut = []" "user loggedOut = JNull" by (simp_all add: loggedOut_def)
  from login_resolution_fails
         [of exampleServer exampleEnv "js ''bob''" "js ''builder''" ?response ?data v8
             "JStr (js ''revoked'')" "js ''revoked''" ?req ?err loggedOut,
          OF answer success body token printed req refused]
       answer worded before
  show ?thesis by simp
qed


end
